theory Spec2Isabelle
  imports Complex_Main "HOL-Library.Extended_Nat" "HOL-Library.Sublist"
begin

section \<open>Shallow embedding of haussmeister/cnmf.py\<close>

text \<open>
  The module drives an external factorisation library (\<open>cse\<close>), numpy, scipy.io, a TIFF
  reader and matplotlib's contour tracer. Everything the module itself decides is
  modelled here: which frames are kept, which files are tested, read and written, which
  library stages are called, in which order and with which arguments, and the per-component
  loop of the contour extractor. The numeric collaborators are parameters of the model.
  The progress messages written to standard output and the timing are left out.
\<close>

subsection \<open>Errors and arrays\<close>

datatype error =
    TypeError | IndexError | ValueError | KeyError | IOError | ZeroDivisionError
  | LibraryError

text \<open>
  A 2-D array of shape \<open>(nrows, length columns)\<close>, stored by columns: \<open>A[:, i]\<close> is
  \<open>columns A ! i\<close>. numpy arrays are rectangular, which is \<open>wf_matrix\<close>.
\<close>

datatype matrix = Matrix (nrows: nat) (columns: "real list list")

definition wf_matrix :: "matrix \<Rightarrow> bool" where
  "wf_matrix A = list_all (\<lambda>c. length c = nrows A) (columns A)"

text \<open>
  numpy floats that the contour extractor can produce from real weights: the division
  \<open>cumEn /= cumEn[-1]\<close> yields \<open>nan\<close> for \<open>0/0\<close> and an infinity for \<open>x/0\<close>; it
  warns and does not raise.
\<close>

datatype npfloat = Fin real | PosInf | NegInf | NaN

definition np_divide :: "real \<Rightarrow> real \<Rightarrow> npfloat" where
  "np_divide x y =
     (if y \<noteq> 0 then Fin (x / y)
      else if x = 0 then NaN
      else if 0 < x then PosInf else NegInf)"

subsection \<open>The contour extractor\<close>

text \<open>
  \<open>np.argsort(a)\<close>: the indices that sort \<open>a\<close> ascending; ties are kept in index order
  here (numpy's default sort does not promise an order among equal weights).
\<close>

definition argsort :: "real list \<Rightarrow> nat list" where
  "argsort a = sort_key (\<lambda>j. a ! j) [0..<length a]"

fun cumsum_from :: "real \<Rightarrow> real list \<Rightarrow> real list" where
  "cumsum_from acc [] = []"
| "cumsum_from acc (x # xs) = (acc + x) # cumsum_from (acc + x) xs"

definition cumsum :: "real list \<Rightarrow> real list" where
  "cumsum xs = cumsum_from 0 xs"

text \<open>\<open>Bvec[indx] = cumEn\<close>: assignment through an index array.\<close>

fun scatter :: "'a list \<Rightarrow> nat list \<Rightarrow> 'a list \<Rightarrow> 'a list" where
  "scatter b (j # js) (v # vs) = scatter (b[j := v]) js vs"
| "scatter b _ _ = b"

text \<open>
  Lines 374 to 378 for one column, whose length is the row count \<open>d\<close> of the matrix:
  \<open>cumEn[-1]\<close> raises IndexError on an empty column.
\<close>

definition energy_map :: "real list \<Rightarrow> error + npfloat list" where
  "energy_map col =
     (let indx = rev (argsort col);
          cumEn = cumsum (map (\<lambda>j. (col ! j)\<^sup>2) indx)
      in if cumEn = [] then Inl IndexError
         else Inr (scatter (replicate (length col) (Fin 0)) indx
                     (map (\<lambda>e. np_divide e (last cumEn)) cumEn)))"

text \<open>
  \<open>np.reshape(v, (d1, d2), order='F')\<close>: entry \<open>(r, c)\<close> is \<open>v[r + d1 * c]\<close>; the sizes
  must agree or numpy raises ValueError. The grid is stored by rows.
\<close>

definition reshape_F :: "'a list \<Rightarrow> nat \<Rightarrow> nat \<Rightarrow> error + 'a list list" where
  "reshape_F v d1 d2 =
     (if d1 * d2 \<noteq> length v then Inl ValueError
      else Inr (map (\<lambda>r. map (\<lambda>c. v ! (r + d1 * c)) [0..<d2]) [0..<d1]))"

type_synonym polygon = "real list list"

text \<open>
  The tracer stands for \<open>_cntr.Cntr(y, x, Bmat).trace(thr)\<close>: the coordinate grids
  \<open>np.mgrid[:d1, :d2]\<close> are determined by the shape of \<open>Bmat\<close>. It returns the list of
  contours found, each a list of points; it is assumed to return. The threshold is a
  number at both call sites (\<open>thr=0.9\<close>).
\<close>

type_synonym tracer = "npfloat list list \<Rightarrow> real \<Rightarrow> polygon list"

definition placeholder :: polygon where
  "placeholder = [[0, 0, 0], [0, 0, 0], [0, 0, 0]]"

definition component_grid :: "real list \<Rightarrow> nat \<Rightarrow> nat \<Rightarrow> error + npfloat list list" where
  "component_grid col d1 d2 =
     (case energy_map col of
        Inl e \<Rightarrow> Inl e
      | Inr Bvec \<Rightarrow> reshape_F Bvec d1 d2)"

definition first_or_placeholder :: "polygon list \<Rightarrow> polygon" where
  "first_or_placeholder cs = (case cs of [] \<Rightarrow> placeholder | c # _ \<Rightarrow> c)"

fun contour_loop ::
  "tracer \<Rightarrow> real list list \<Rightarrow> nat \<Rightarrow> nat \<Rightarrow> real \<Rightarrow> polygon list \<Rightarrow> error + polygon list"
where
  "contour_loop tr [] d1 d2 thr coordinates = Inr coordinates"
| "contour_loop tr (col # cols) d1 d2 thr coordinates =
     (case component_grid col d1 d2 of
        Inl e \<Rightarrow> Inl e
      | Inr Bmat \<Rightarrow>
          contour_loop tr cols d1 d2 thr
            (coordinates @ [first_or_placeholder (tr Bmat thr)]))"

definition contour :: "tracer \<Rightarrow> matrix \<Rightarrow> nat \<Rightarrow> nat \<Rightarrow> real \<Rightarrow> error + polygon list" where
  "contour tr A d1 d2 thr = contour_loop tr (columns A) d1 d2 thr []"

text \<open>Stand-in tracers: one that never finds a contour, one that finds an open
  two-point line cutting a corner of the grid, one that finds a closed square, and one
  that finds the square when the first pixel of the grid lies within the level.\<close>

definition no_contours :: tracer where
  "no_contours Bmat thr = []"

definition corner_line :: tracer where
  "corner_line Bmat thr = [[[1/2, 0], [0, 1/2]]]"

definition square_outline :: tracer where
  "square_outline Bmat thr = [[[0, 0], [1, 0], [1, 1], [0, 1]]]"

definition corner_square :: tracer where
  "corner_square Bmat thr =
     (case Bmat of
        (Fin v # _) # _ \<Rightarrow> if v \<le> thr then [[[0, 0], [1, 0], [1, 1], [0, 1]]] else []
      | _ \<Rightarrow> [])"

subsection \<open>Frame selection of the array cache\<close>

text \<open>
  Lines 53 to 64: the file names that are read when the frames come from the file list.
  A mask shorter than the list is extended with \<open>np.ones(...).astype(np.bool)\<close>, that is
  with True; \<open>zip\<close> stops at the shorter list.
\<close>

definition mask_full :: "nat \<Rightarrow> bool list \<Rightarrow> bool list" where
  "mask_full n msk =
     (if n > length msk then msk @ replicate (n - length msk) True else msk)"

definition select_filenames :: "string list \<Rightarrow> bool list option \<Rightarrow> string list" where
  "select_filenames filenames msk =
     (case msk of
        None \<Rightarrow> filenames
      | Some m \<Rightarrow>
          map fst (filter (\<lambda>(fn, masked). \<not> masked)
                     (zip filenames (mask_full (length filenames) m))))"

subsection \<open>Arrays on disk, the dataset and the collaborators\<close>

text \<open>
  A movie of \<open>T\<close> frames of \<open>d1\<close> rows and \<open>d2\<close> columns. The source holds it as
  \<open>(T, d1, d2)\<close> when read and as \<open>(d1, d2, T)\<close> after \<open>np.transpose(., (1, 2, 0))\<close>;
  the transposition moves axes and no entry, so both are the same value here, and
  \<open>.shape\<close> of the transposed array is \<open>(cube_d1, cube_d2, length cube_frames)\<close>.
\<close>

type_synonym frame = "real list list"

datatype cube = Cube (cube_d1: nat) (cube_d2: nat) (cube_frames: "frame list")

datatype ndarray = Arr2 matrix | Arr3 cube

datatype disk_file = Npy ndarray | MatFile "(string \<times> matrix) list" | OtherFile

datatype pv = PInt int | PReal real | PBool bool

type_synonym params = "string \<rightharpoonup> pv"
type_synonym options = "string \<rightharpoonup> params"

record haussio_data =
  dirname_comp :: string
  filenames :: "string list"
  rawfile :: "string option"
  read_raw :: "error + cube"

text \<open>
  \<open>read_raw\<close> is the value of \<open>haussio_data.read_raw().squeeze().astype(np.float32)\<close>;
  the method belongs to a module that is not part of this file, so its result is a field.
\<close>

record merge_args =
  m_Y :: ndarray
  m_A :: matrix
  m_b :: matrix
  m_C :: matrix
  m_f :: matrix
  m_S :: matrix
  m_sn_pix :: matrix
  m_temporal_params :: params
  m_spatial_params :: params
  m_bl :: "matrix option"
  m_c1 :: "matrix option"
  m_sn :: "matrix option"
  m_g :: "matrix option"
  m_thr :: pv
  m_mx :: enat
  m_fast_merge :: "bool option"

type_synonym temporal_result =
  "matrix \<times> matrix \<times> matrix \<times> matrix \<times> matrix \<times> matrix \<times> matrix \<times> matrix"

type_synonym merge_result =
  "matrix \<times> matrix \<times> nat \<times> nat list list \<times> matrix \<times> matrix \<times> matrix \<times> matrix \<times> matrix"

text \<open>
  The collaborators. Each library stage may raise (\<open>Inl\<close>); the module catches nothing.
  \<open>CNMFSetParms Y n_processes K p ssub tsub\<close> (with \<open>gSig=[9, 9]\<close> at every call);
  \<open>update_spatial_components Y C f A sn params\<close>;
  \<open>update_temporal_components Y A b Cin fin params\<close> (with \<open>bl\<close>, \<open>c1\<close>, \<open>sn\<close>, \<open>g\<close>
  None at every call);
  \<open>run_CNMF_patches fname Yr (d1, d2, T) options rf stride n_processes\<close>, where \<open>Yr\<close> is
  the content of the file \<open>fname\<close>, which the library reads itself.
  \<open>zproject\<close> is \<open>utils.zproject\<close>, of a module that is not part of this file.
\<close>

record env =
  cpu_count :: nat
  tiff_asarray :: "string list \<Rightarrow> error + cube"
  zproject :: "cube \<Rightarrow> matrix"
  trace_contours :: tracer
  CNMFSetParms :: "cube \<Rightarrow> nat \<Rightarrow> int \<Rightarrow> int \<Rightarrow> nat \<Rightarrow> nat \<Rightarrow> error + options"
  preprocess_data :: "ndarray \<Rightarrow> params \<Rightarrow> error + (ndarray \<times> matrix \<times> matrix \<times> matrix)"
  initialize_components ::
    "cube \<Rightarrow> params \<Rightarrow> error + (matrix \<times> matrix \<times> matrix \<times> matrix \<times> matrix)"
  update_spatial_components ::
    "ndarray \<Rightarrow> matrix \<Rightarrow> matrix \<Rightarrow> matrix \<Rightarrow> matrix \<Rightarrow> params
       \<Rightarrow> error + (matrix \<times> matrix \<times> matrix)"
  update_temporal_components ::
    "ndarray \<Rightarrow> matrix \<Rightarrow> matrix \<Rightarrow> matrix \<Rightarrow> matrix \<Rightarrow> params \<Rightarrow> error + temporal_result"
  merge_components :: "merge_args \<Rightarrow> error + merge_result"
  run_CNMF_patches ::
    "string \<Rightarrow> ndarray \<Rightarrow> nat \<times> nat \<times> nat \<Rightarrow> options \<Rightarrow> nat \<Rightarrow> nat \<Rightarrow> nat
       \<Rightarrow> error + (matrix \<times> matrix \<times> matrix \<times> matrix \<times> matrix \<times> options)"
  order_components :: "matrix \<Rightarrow> matrix \<Rightarrow> error + (matrix \<times> matrix \<times> nat list)"

text \<open>\<open>NCPUS = int(mp.cpu_count()/2)\<close>.\<close>

definition NCPUS :: "env \<Rightarrow> nat" where
  "NCPUS E = cpu_count E div 2"

subsection \<open>The world: files and the record of calls\<close>

datatype call =
    NpSave string
  | SaveMat string
  | StopServer
  | StartServer nat
  | SetParms nat int int nat nat
  | PreprocessData
  | InitializeComponents
  | UpdateSpatialComponents
  | UpdateTemporalComponents
  | MergeComponents pv enat "bool option"
  | RunCNMFPatches
  | OrderComponents matrix matrix

record world =
  files :: "string \<rightharpoonup> disk_file"
  calls :: "call list"

type_synonym 'a io = "world \<Rightarrow> (error + 'a) \<times> world"

definition io_return :: "'a \<Rightarrow> 'a io" where
  "io_return x w = (Inr x, w)"

definition io_lift :: "error + 'a \<Rightarrow> 'a io" where
  "io_lift r w = (r, w)"

definition io_bind :: "'a io \<Rightarrow> ('a \<Rightarrow> 'b io) \<Rightarrow> 'b io" where
  "io_bind m f w =
     (case m w of
        (Inl e, w') \<Rightarrow> (Inl e, w')
      | (Inr x, w') \<Rightarrow> f x w')"

text \<open>
  A call into a collaborator: it is recorded, with the arguments the properties below
  speak about, then its outcome is the result.
\<close>

definition io_call :: "call \<Rightarrow> error + 'a \<Rightarrow> 'a io" where
  "io_call c r w = (r, w\<lparr>calls := calls w @ [c]\<rparr>)"

text \<open>The calls whose arguments are recorded: what is recorded is what is passed.\<close>

definition call_set_parms ::
  "env \<Rightarrow> cube \<Rightarrow> nat \<Rightarrow> int \<Rightarrow> int \<Rightarrow> nat \<Rightarrow> nat \<Rightarrow> options io"
where
  "call_set_parms E Y n K p ssub tsub =
     io_call (SetParms n K p ssub tsub) (CNMFSetParms E Y n K p ssub tsub)"

definition call_merge :: "env \<Rightarrow> merge_args \<Rightarrow> merge_result io" where
  "call_merge E a =
     io_call (MergeComponents (m_thr a) (m_mx a) (m_fast_merge a)) (merge_components E a)"

definition call_order :: "env \<Rightarrow> matrix \<Rightarrow> matrix \<Rightarrow> (matrix \<times> matrix \<times> nat list) io" where
  "call_order E A C = io_call (OrderComponents A C) (order_components E A C)"

definition path_exists :: "string \<Rightarrow> bool io" where
  "path_exists p w = (Inr (p \<in> dom (files w)), w)"

text \<open>\<open>np.save\<close> appends \<open>.npy\<close> to a name that does not end with it.\<close>

definition npy_path :: "string \<Rightarrow> string" where
  "npy_path p = (if take 4 (rev p) = rev ''.npy'' then p else p @ ''.npy'')"

definition np_save :: "string \<Rightarrow> ndarray \<Rightarrow> unit io" where
  "np_save p a w =
     (Inr (), w\<lparr>files := (files w)(npy_path p \<mapsto> Npy a),
                calls := calls w @ [NpSave (npy_path p)]\<rparr>)"

definition np_load :: "string \<Rightarrow> ndarray io" where
  "np_load p w =
     (case files w p of
        Some (Npy a) \<Rightarrow> (Inr a, w)
      | _ \<Rightarrow> (Inl IOError, w))"

definition savemat :: "string \<Rightarrow> (string \<times> matrix) list \<Rightarrow> unit io" where
  "savemat p d w =
     (Inr (), w\<lparr>files := (files w)(p \<mapsto> MatFile d), calls := calls w @ [SaveMat p]\<rparr>)"

definition loadmat :: "string \<Rightarrow> (string \<times> matrix) list io" where
  "loadmat p w =
     (case files w p of
        Some (MatFile d) \<Rightarrow> (Inr d, w)
      | _ \<Rightarrow> (Inl IOError, w))"

text \<open>\<open>resdict[key]\<close>.\<close>

definition getitem :: "(string \<times> 'a) list \<Rightarrow> string \<Rightarrow> error + 'a" where
  "getitem d k = (case map_of d k of None \<Rightarrow> Inl KeyError | Some v \<Rightarrow> Inr v)"

text \<open>\<open>d1, d2, T = Y.shape\<close> needs three axes.\<close>

definition shape3 :: "ndarray \<Rightarrow> error + cube" where
  "shape3 a = (case a of Arr3 Y \<Rightarrow> Inr Y | Arr2 _ \<Rightarrow> Inl ValueError)"

subsection \<open>The array cache: \<open>tiffs_to_cnmf\<close>\<close>

definition bindE :: "error + 'a \<Rightarrow> ('a \<Rightarrow> error + 'b) \<Rightarrow> error + 'b" where
  "bindE r f = (case r of Inl e \<Rightarrow> Inl e | Inr x \<Rightarrow> f x)"

text \<open>\<open>np.invert(mask)\<close> raises TypeError on None.\<close>

definition np_invert :: "bool list option \<Rightarrow> error + bool list" where
  "np_invert msk = (case msk of None \<Rightarrow> Inl TypeError | Some m \<Rightarrow> Inr (map Not m))"

text \<open>
  \<open>a[keep, :, :]\<close> with a boolean index along the first axis: numpy (from 1.13 on) raises
  IndexError unless the index is as long as the axis.
\<close>

definition bool_index :: "cube \<Rightarrow> bool list \<Rightarrow> error + cube" where
  "bool_index a keep =
     (if length keep \<noteq> length (cube_frames a) then Inl IndexError
      else Inr (Cube (cube_d1 a) (cube_d2 a)
                  (map fst (filter snd (zip (cube_frames a) keep)))))"

text \<open>Line 69: the receiver is evaluated before the index.\<close>

definition read_raw_masked :: "haussio_data \<Rightarrow> bool list option \<Rightarrow> error + cube" where
  "read_raw_masked hdata msk =
     bindE (read_raw hdata) (\<lambda>raw. bindE (np_invert msk) (\<lambda>keep. bool_index raw keep))"

text \<open>
  \<open>np.reshape(tiff_data, (d1*d2, T), order='F')\<close>: column \<open>t\<close> is frame \<open>t\<close> read
  column by column.
\<close>

definition flatten_F :: "nat \<Rightarrow> nat \<Rightarrow> frame \<Rightarrow> real list" where
  "flatten_F d1 d2 f = concat (map (\<lambda>c. map (\<lambda>r. f ! r ! c) [0..<d1]) [0..<d2])"

definition reshape_cube_F :: "cube \<Rightarrow> matrix" where
  "reshape_cube_F Y =
     Matrix (cube_d1 Y * cube_d2 Y) (map (flatten_F (cube_d1 Y) (cube_d2 Y)) (cube_frames Y))"

definition raw_missing :: "haussio_data \<Rightarrow> bool io" where
  "raw_missing hdata w =
     (Inr (case rawfile hdata of None \<Rightarrow> True | Some r \<Rightarrow> r \<notin> dom (files w)), w)"

definition tiffs_to_cnmf :: "env \<Rightarrow> haussio_data \<Rightarrow> bool list option \<Rightarrow> bool \<Rightarrow> unit io" where
  "tiffs_to_cnmf E hdata msk force =
     io_bind (path_exists (dirname_comp hdata @ ''_Y.npy'')) (\<lambda>have_Y.
       if \<not> have_Y \<or> force then
         io_bind (raw_missing hdata) (\<lambda>no_raw.
         io_bind (io_lift
                    (if no_raw then tiff_asarray E (select_filenames (filenames hdata) msk)
                     else read_raw_masked hdata msk)) (\<lambda>tiff_data.
         io_bind (np_save (dirname_comp hdata @ ''_Y'') (Arr3 tiff_data)) (\<lambda>_.
         np_save (dirname_comp hdata @ ''_Yr'') (Arr2 (reshape_cube_F tiff_data)))))
       else io_return ())"

subsection \<open>The orchestrators\<close>

text \<open>
  \<open>a/b\<close> on two integers (the module is Python 2: it has no division import and falls
  back on an implicit relative import): floor division, ZeroDivisionError on \<open>b = 0\<close>.
\<close>

definition py_floordiv :: "int \<Rightarrow> int \<Rightarrow> error + int" where
  "py_floordiv a b = (if b = 0 then Inl ZeroDivisionError else Inr (a div b))"

text \<open>\<open>int(q/2.0)\<close> of an integer \<open>q\<close>: the half, truncated towards zero.\<close>

definition int_half :: "int \<Rightarrow> int" where
  "int_half q = (if 0 \<le> q then q div 2 else - ((- q) div 2))"

text \<open>Line 251: \<open>int(nrois_init/NCPUS/2.0)\<close>.\<close>

definition patch_K :: "int \<Rightarrow> nat \<Rightarrow> error + int" where
  "patch_K nrois_init ncpus = bindE (py_floordiv nrois_init (int ncpus)) (\<lambda>q. Inr (int_half q))"

text \<open>
  Lines 279 to 281: \<open>np.minimum(np.int(q/(T/2000.)), np.int(q))\<close> for the integer
  \<open>q = (d1*d2)/NCPUS\<close>; the float quotient is taken exactly here, and the float
  division raises on \<open>T = 0\<close>.
\<close>

definition pix_proc :: "int \<Rightarrow> nat \<Rightarrow> error + int" where
  "pix_proc q T =
     (if T = 0 then Inl ZeroDivisionError
      else Inr (min (\<lfloor>real_of_int q * 2000 / real T\<rfloor>) q))"

text \<open>\<open>options[grp][key] = v\<close>, in the order written; \<open>options[grp]\<close>; \<open>options[grp][key]\<close>.\<close>

fun set_params :: "options \<Rightarrow> (string \<times> string \<times> pv) list \<Rightarrow> error + options" where
  "set_params opts [] = Inr opts"
| "set_params opts ((grp, key, v) # rest) =
     (case opts grp of
        None \<Rightarrow> Inl KeyError
      | Some d \<Rightarrow> set_params (opts(grp \<mapsto> d(key \<mapsto> v))) rest)"

definition get_group :: "options \<Rightarrow> string \<Rightarrow> error + params" where
  "get_group opts grp = (case opts grp of None \<Rightarrow> Inl KeyError | Some d \<Rightarrow> Inr d)"

definition get_param :: "options \<Rightarrow> string \<Rightarrow> string \<Rightarrow> error + pv" where
  "get_param opts grp key =
     bindE (get_group opts grp)
       (\<lambda>d. case d key of None \<Rightarrow> Inl KeyError | Some v \<Rightarrow> Inr v)"

type_synonym result_bundle = "matrix \<times> matrix \<times> matrix \<times> matrix \<times> matrix"

text \<open>Lines 96 to 196: the branch of \<open>process_data\<close> taken when the bundle is absent.\<close>

definition whole_frame_stages :: "env \<Rightarrow> haussio_data \<Rightarrow> cube \<Rightarrow> int \<Rightarrow> int \<Rightarrow> result_bundle io" where
  "whole_frame_stages E hdata Y p nrois_init =
     io_bind (io_call StopServer (Inr ())) (\<lambda>_.
     io_bind (np_load (dirname_comp hdata @ ''_Yr.npy'')) (\<lambda>Yr.
     io_bind (io_lift (py_floordiv (int (cube_d1 Y * cube_d2 Y)) (int (NCPUS E))))
       (\<lambda>n_pixels_per_process.
     io_bind (call_set_parms E Y (NCPUS E) nrois_init p 2 2) (\<lambda>options0.
     io_bind (io_lift (set_params options0
                [(''preprocess_params'', ''n_processes'', PInt (int (NCPUS E))),
                 (''preprocess_params'', ''n_pixels_per_process'', PInt n_pixels_per_process),
                 (''init_params'', ''nIter'', PInt 10),
                 (''init_params'', ''maxIter'', PInt 10),
                 (''init_params'', ''use_hals'', PBool True),
                 (''spatial_params'', ''n_processes'', PInt (int (NCPUS E))),
                 (''spatial_params'', ''n_pixels_per_process'', PInt n_pixels_per_process),
                 (''temporal_params'', ''n_processes'', PInt (int (NCPUS E))),
                 (''temporal_params'', ''n_pixels_per_process'', PInt n_pixels_per_process)]))
       (\<lambda>options.
     io_bind (io_call (StartServer (NCPUS E)) (Inr ())) (\<lambda>_.
     io_bind (io_lift (get_group options ''preprocess_params'')) (\<lambda>pre.
     io_bind (io_call PreprocessData (preprocess_data E Yr pre)) (\<lambda>(Yr, sn, g, psx).
     io_bind (io_lift (get_group options ''init_params'')) (\<lambda>ini.
     io_bind (io_call InitializeComponents (initialize_components E Y ini))
       (\<lambda>(Ain, Cin, b_in, f_in, center).
     io_bind (io_lift (get_group options ''spatial_params'')) (\<lambda>spa.
     io_bind (io_call UpdateSpatialComponents
                (update_spatial_components E Yr Cin f_in Ain sn spa)) (\<lambda>(A, b, Cin).
     io_bind (io_lift (get_group options ''temporal_params'')) (\<lambda>tem.
     io_bind (io_call UpdateTemporalComponents
                (update_temporal_components E Yr A b Cin f_in tem))
       (\<lambda>(C, f, S, bl, c1, neurons_sn, g, YrA).
     io_bind (io_lift (get_group options ''temporal_params'')) (\<lambda>tem_m.
     io_bind (io_lift (get_group options ''spatial_params'')) (\<lambda>spa_m.
     io_bind (call_merge E
                \<lparr>m_Y = Yr, m_A = A, m_b = b, m_C = C, m_f = f, m_S = S, m_sn_pix = sn,
                 m_temporal_params = tem_m, m_spatial_params = spa_m,
                 m_bl = Some bl, m_c1 = Some c1, m_sn = Some neurons_sn, m_g = Some g,
                 m_thr = PReal (7/10), m_mx = 100, m_fast_merge = Some True\<rparr>)
       (\<lambda>(A_m, C_m, nr_m, merged_ROIs, S_m, bl_m, c1_m, sn_m, g_m).
     io_bind (io_lift (get_group options ''spatial_params'')) (\<lambda>spa2.
     io_bind (io_call UpdateSpatialComponents
                (update_spatial_components E Yr C_m f A_m sn spa2)) (\<lambda>(A2, b2, C2).
     io_bind (io_lift (get_group options ''temporal_params'')) (\<lambda>tem2.
     io_bind (io_call UpdateTemporalComponents
                (update_temporal_components E Yr A2 b2 C2 f tem2))
       (\<lambda>(C2, f2, S2, bl2, c12, neurons_sn2, g21, YrA).
     io_bind (savemat (dirname_comp hdata @ ''_cnmf.mat'')
                [(''A'', A2), (''C'', C2), (''YrA'', YrA), (''S'', S2), (''bl'', bl2)]) (\<lambda>_.
     io_return (A2, C2, YrA, S2, bl2)))))))))))))))))))))))"

text \<open>Lines 198 to 203 (and 330 to 335): the branch taken when the bundle is there.\<close>

definition load_bundle :: "string \<Rightarrow> result_bundle io" where
  "load_bundle fn_cnmf =
     io_bind (loadmat fn_cnmf) (\<lambda>resdict.
     io_bind (io_lift (getitem resdict ''A'')) (\<lambda>A2.
     io_bind (io_lift (getitem resdict ''C'')) (\<lambda>C2.
     io_bind (io_lift (getitem resdict ''YrA'')) (\<lambda>YrA.
     io_bind (io_lift (getitem resdict ''S'')) (\<lambda>S2.
     io_bind (io_lift (getitem resdict ''bl'')) (\<lambda>bl2.
     io_return (A2, C2, YrA, S2, bl2)))))))"

text \<open>Lines 205 to 210 (and 337 to 342): the projection image, computed or loaded.\<close>

definition projection :: "env \<Rightarrow> haussio_data \<Rightarrow> cube \<Rightarrow> ndarray io" where
  "projection E hdata Y =
     io_bind (path_exists (dirname_comp hdata @ ''_proj.npy'')) (\<lambda>have_proj.
       if \<not> have_proj then
         io_bind (np_save (dirname_comp hdata @ ''_proj.npy'') (Arr2 (zproject E Y))) (\<lambda>_.
         io_return (Arr2 (zproject E Y)))
       else np_load (dirname_comp hdata @ ''_proj.npy''))"

text \<open>
  The value returned: \<open>(rois, C2, zproj, S2, Y, YrA)\<close>. \<open>rois\<close> wraps each polygon of
  \<open>contour\<close> in an ROI object and is the list of polygons here.
\<close>

type_synonym outcome = "polygon list \<times> matrix \<times> ndarray \<times> matrix \<times> cube \<times> matrix"

definition process_data ::
  "env \<Rightarrow> haussio_data \<Rightarrow> bool list option \<Rightarrow> int \<Rightarrow> int \<Rightarrow> outcome io"
where
  "process_data E hdata msk p nrois_init =
     io_bind (tiffs_to_cnmf E hdata msk False) (\<lambda>_.
     io_bind (np_load (dirname_comp hdata @ ''_Y.npy'')) (\<lambda>Yfile.
     io_bind (io_lift (shape3 Yfile)) (\<lambda>Y.
     io_bind (path_exists (dirname_comp hdata @ ''_cnmf.mat'')) (\<lambda>have_bundle.
     io_bind (if \<not> have_bundle then whole_frame_stages E hdata Y p nrois_init
              else load_bundle (dirname_comp hdata @ ''_cnmf.mat''))
       (\<lambda>(A2, C2, YrA, S2, bl2).
     io_bind (projection E hdata Y) (\<lambda>zproj.
     io_bind (call_order E A2 C2) (\<lambda>(A_or, C_or, srt).
     io_bind (io_call StopServer (Inr ())) (\<lambda>_.
     io_bind (io_lift (contour (trace_contours E) A2 (cube_d1 Y) (cube_d2 Y) (9/10)))
       (\<lambda>polygons.
     io_return (polygons, C2, zproj, S2, Y, YrA))))))))))"

text \<open>
  Lines 239 to 328: the branch of \<open>process_data_patches\<close> taken when the bundle is absent.
  \<open>[]\<close> is the array with no entry; \<open>np.array(C_tot)\<close> is \<open>C_tot\<close>.
\<close>

definition patch_stages :: "env \<Rightarrow> haussio_data \<Rightarrow> cube \<Rightarrow> int \<Rightarrow> int \<Rightarrow> result_bundle io" where
  "patch_stages E hdata Y p nrois_init =
     io_bind (io_call StopServer (Inr ())) (\<lambda>_.
     io_bind (np_load (dirname_comp hdata @ ''_Yr.npy'')) (\<lambda>Yr.
     io_bind (io_lift (py_floordiv (int (cube_d1 Y * cube_d2 Y)) (int (NCPUS E))))
       (\<lambda>n_pixels_per_process.
     io_bind (io_lift (patch_K nrois_init (NCPUS E))) (\<lambda>K.
     io_bind (call_set_parms E Y (NCPUS E) K p 1 1) (\<lambda>options0.
     io_bind (io_lift (set_params options0
                [(''preprocess_params'', ''n_processes'', PInt (int (NCPUS E))),
                 (''preprocess_params'', ''n_pixels_per_process'', PInt n_pixels_per_process),
                 (''init_params'', ''nIter'', PInt 10),
                 (''init_params'', ''maxIter'', PInt 10),
                 (''init_params'', ''use_hals'', PBool True),
                 (''spatial_params'', ''n_processes'', PInt (int (NCPUS E))),
                 (''spatial_params'', ''n_pixels_per_process'', PInt n_pixels_per_process),
                 (''temporal_params'', ''n_processes'', PInt (int (NCPUS E))),
                 (''temporal_params'', ''n_pixels_per_process'', PInt n_pixels_per_process)]))
       (\<lambda>options1.
     io_bind (io_call (StartServer (NCPUS E)) (Inr ())) (\<lambda>_.
     io_bind (io_call RunCNMFPatches
                (run_CNMF_patches E (dirname_comp hdata @ ''_Yr.npy'') Yr
                   (cube_d1 Y, cube_d2 Y, length (cube_frames Y)) options1 16 2 (NCPUS E)))
       (\<lambda>(A_tot, C_tot, b, f, sn_tot, opt_out).
     io_bind (call_set_parms E Y (NCPUS E) (int (length (columns A_tot))) p 1 1)
       (\<lambda>options2.
     io_bind (io_lift (pix_proc n_pixels_per_process (length (cube_frames Y)))) (\<lambda>pix.
     io_bind (io_lift (set_params options2
                [(''preprocess_params'', ''n_processes'', PInt (int (NCPUS E))),
                 (''preprocess_params'', ''n_pixels_per_process'', PInt n_pixels_per_process),
                 (''init_params'', ''nIter'', PInt 10),
                 (''init_params'', ''maxIter'', PInt 10),
                 (''init_params'', ''use_hals'', PBool True),
                 (''spatial_params'', ''n_processes'', PInt (int (NCPUS E))),
                 (''temporal_params'', ''n_processes'', PInt (int (NCPUS E))),
                 (''spatial_params'', ''n_pixels_per_process'', PInt pix),
                 (''temporal_params'', ''n_pixels_per_process'', PInt pix)]))
       (\<lambda>options.
     io_bind (io_lift (get_group options ''temporal_params'')) (\<lambda>tem_m.
     io_bind (io_lift (get_group options ''spatial_params'')) (\<lambda>spa_m.
     io_bind (io_lift (get_param options ''merging'' ''thr'')) (\<lambda>thr.
     io_bind (call_merge E
                \<lparr>m_Y = Yr, m_A = A_tot, m_b = Matrix 0 [], m_C = C_tot, m_f = Matrix 0 [],
                 m_S = C_tot, m_sn_pix = Matrix 0 [],
                 m_temporal_params = tem_m, m_spatial_params = spa_m,
                 m_bl = None, m_c1 = None, m_sn = None, m_g = None,
                 m_thr = thr, m_mx = \<infinity>, m_fast_merge = None\<rparr>)
       (\<lambda>(A_m, C_m, nr_m, merged_ROIs, S_m, bl_m, c1_m, sn_m, g_m).
     io_bind (io_lift (get_group options ''spatial_params'')) (\<lambda>spa2.
     io_bind (io_call UpdateSpatialComponents
                (update_spatial_components E Yr C_m f A_m sn_tot spa2)) (\<lambda>(A2, b2, C2).
     io_bind (io_lift (get_group options ''temporal_params'')) (\<lambda>tem2.
     io_bind (io_call UpdateTemporalComponents
                (update_temporal_components E Yr A2 b2 C2 f tem2))
       (\<lambda>(C2, f2, S2, bl2, c12, neurons_sn2, g21, YrA).
     io_bind (savemat (dirname_comp hdata @ ''_cnmf.mat'')
                [(''A'', A2), (''C'', C2), (''YrA'', YrA), (''S'', S2), (''bl'', bl2)]) (\<lambda>_.
     io_return (A2, C2, YrA, S2, bl2)))))))))))))))))))))"

definition process_data_patches ::
  "env \<Rightarrow> haussio_data \<Rightarrow> bool list option \<Rightarrow> int \<Rightarrow> int \<Rightarrow> outcome io"
where
  "process_data_patches E hdata msk p nrois_init =
     io_bind (tiffs_to_cnmf E hdata msk False) (\<lambda>_.
     io_bind (np_load (dirname_comp hdata @ ''_Y.npy'')) (\<lambda>Yfile.
     io_bind (io_lift (shape3 Yfile)) (\<lambda>Y.
     io_bind (path_exists (dirname_comp hdata @ ''_cnmf.mat'')) (\<lambda>have_bundle.
     io_bind (if \<not> have_bundle then patch_stages E hdata Y p nrois_init
              else load_bundle (dirname_comp hdata @ ''_cnmf.mat''))
       (\<lambda>(A2, C2, YrA, S2, bl2).
     io_bind (projection E hdata Y) (\<lambda>zproj.
     io_bind (call_order E A2 C2) (\<lambda>(A_or, C_or, srt).
     io_bind (io_call StopServer (Inr ())) (\<lambda>_.
     io_bind (io_lift (contour (trace_contours E) A2 (cube_d1 Y) (cube_d2 Y) (9/10)))
       (\<lambda>polygons.
     io_return (polygons, C2, zproj, S2, Y, YrA))))))))))"

text \<open>The numeric stages among the recorded calls.\<close>

fun numeric_stage :: "call \<Rightarrow> bool" where
  "numeric_stage PreprocessData = True"
| "numeric_stage InitializeComponents = True"
| "numeric_stage UpdateSpatialComponents = True"
| "numeric_stage UpdateTemporalComponents = True"
| "numeric_stage (MergeComponents thr mx fast) = True"
| "numeric_stage RunCNMFPatches = True"
| "numeric_stage _ = False"

text \<open>The calls recorded between two worlds of a run.\<close>

definition new_calls :: "world \<Rightarrow> world \<Rightarrow> call list" where
  "new_calls w w' = drop (length (calls w)) (calls w')"

fun is_merge :: "call \<Rightarrow> bool" where
  "is_merge (MergeComponents thr mx fast) = True"
| "is_merge _ = False"

fun is_set_parms :: "call \<Rightarrow> bool" where
  "is_set_parms (SetParms n K p ssub tsub) = True"
| "is_set_parms _ = False"

text \<open>Calls that are neither a numeric stage nor a configuration of the library.\<close>

definition quiet :: "call list \<Rightarrow> bool" where
  "quiet L \<longleftrightarrow>
     filter numeric_stage L = [] \<and> filter is_set_parms L = [] \<and> filter is_merge L = []"

text \<open>Lines 123 to 190 in order.\<close>

definition whole_frame_order :: "call list" where
  "whole_frame_order =
     [PreprocessData, InitializeComponents, UpdateSpatialComponents,
      UpdateTemporalComponents, MergeComponents (PReal (7/10)) 100 (Some True),
      UpdateSpatialComponents, UpdateTemporalComponents]"

subsection \<open>A stand-in library and small datasets\<close>

text \<open>
  A stand-in for the collaborators, to run the orchestrators on concrete inputs: every
  stage returns at once, the ordering step reverses the components, the TIFF reader
  yields one 2 by 2 frame per file.
\<close>

definition demo_frame :: frame where
  "demo_frame = [[1, 2], [3, 4]]"

definition demo_A :: matrix where
  "demo_A = Matrix 4 [[3, 1, 0, 0], [0, 0, 1, 2]]"

definition demo_C :: matrix where
  "demo_C = Matrix 2 [[1, 5], [2, 6]]"

definition none_matrix :: matrix where
  "none_matrix = Matrix 0 []"

definition demo_options :: options where
  "demo_options =
     [''preprocess_params'' \<mapsto> Map.empty, ''init_params'' \<mapsto> Map.empty,
      ''spatial_params'' \<mapsto> Map.empty, ''temporal_params'' \<mapsto> Map.empty,
      ''merging'' \<mapsto> [''thr'' \<mapsto> PReal (8/10)]]"

definition stand_in :: "nat \<Rightarrow> env" where
  "stand_in ncpu =
     \<lparr>cpu_count = ncpu,
      tiff_asarray = (\<lambda>fns. Inr (Cube 2 2 (map (\<lambda>_. demo_frame) fns))),
      zproject = (\<lambda>Y. Matrix 2 [[0, 0], [0, 0]]),
      trace_contours = corner_square,
      CNMFSetParms = (\<lambda>Y n K p ssub tsub. Inr demo_options),
      preprocess_data = (\<lambda>Yr pre. Inr (Yr, none_matrix, none_matrix, none_matrix)),
      initialize_components =
        (\<lambda>Y ini. Inr (demo_A, demo_C, none_matrix, none_matrix, none_matrix)),
      update_spatial_components = (\<lambda>Yr C f A sn spa. Inr (A, none_matrix, C)),
      update_temporal_components =
        (\<lambda>Yr A b C f tem.
           Inr (C, f, none_matrix, none_matrix, none_matrix, none_matrix, none_matrix,
                none_matrix)),
      merge_components =
        (\<lambda>a. Inr (m_A a, m_C a, 0, [], m_S a, none_matrix, none_matrix, none_matrix,
                   none_matrix)),
      run_CNMF_patches =
        (\<lambda>fname Yr shp opts rf stride n.
           Inr (demo_A, demo_C, none_matrix, none_matrix, none_matrix, opts)),
      order_components =
        (\<lambda>A C. Inr (Matrix (nrows A) (rev (columns A)),
                      Matrix (nrows C) (map rev (columns C)), [1, 0]))\<rparr>"

definition demo_data :: haussio_data where
  "demo_data =
     \<lparr>dirname_comp = ''d'', filenames = [''f0.tif'', ''f1.tif''], rawfile = None,
      read_raw = Inl IOError\<rparr>"

definition demo_raw_data :: haussio_data where
  "demo_raw_data =
     \<lparr>dirname_comp = ''d'', filenames = [''f0.tif'', ''f1.tif''], rawfile = Some ''d.raw'',
      read_raw = Inr (Cube 2 2 [demo_frame, demo_frame])\<rparr>"

definition empty_disk :: world where
  "empty_disk = \<lparr>files = Map.empty, calls = []\<rparr>"

definition raw_disk :: world where
  "raw_disk = \<lparr>files = [''d.raw'' \<mapsto> OtherFile], calls = []\<rparr>"

definition only_Y_disk :: world where
  "only_Y_disk =
     \<lparr>files = [''d_Y.npy'' \<mapsto> Npy (Arr3 (Cube 2 2 [demo_frame, demo_frame]))], calls = []\<rparr>"

definition replay_disk :: world where
  "replay_disk =
     \<lparr>files = [''d_Y.npy'' \<mapsto> Npy (Arr3 (Cube 2 2 [demo_frame, demo_frame])),
               ''d_cnmf.mat'' \<mapsto>
                 MatFile [(''A'', demo_A), (''C'', demo_C), (''YrA'', none_matrix),
                          (''S'', none_matrix), (''bl'', none_matrix)]],
      calls = []\<rparr>"

section \<open>Properties\<close>

subsection \<open>Helper facts\<close>

lemma mask_full_short:
  "length m < n \<Longrightarrow> mask_full n m = m @ replicate (n - length m) True"
  by (simp add: mask_full_def)

lemma mask_full_padded:
  "mask_full n (m @ replicate (n - length m) True) = m @ replicate (n - length m) True"
  by (simp add: mask_full_def)

lemma filter_zip_all_masked:
  "filter (\<lambda>(fn, masked). \<not> masked) (zip xs (replicate k True)) = []"
  by (induction xs arbitrary: k) (auto simp: zip_replicate2 filter_empty_conv set_zip)

lemma select_drops_tail:
  assumes "length m < length fns"
  shows "select_filenames fns (Some m) = select_filenames (take (length m) fns) (Some m)"
proof -
  let ?k = "length m"
  have split: "zip fns (m @ replicate (length fns - ?k) True)
      = zip (take ?k fns) m @ zip (drop ?k fns) (replicate (length fns - ?k) True)"
    by (simp add: zip_append2)
  have "mask_full (length (take ?k fns)) m = m"
    using assms by (simp add: mask_full_def)
  then show ?thesis
    using assms
    by (simp add: select_filenames_def mask_full_short split filter_zip_all_masked)
qed

lemma length_cumsum_from: "length (cumsum_from a xs) = length xs"
  by (induction xs arbitrary: a) auto

lemma length_scatter: "length (scatter b js vs) = length b"
  by (induction b js vs rule: scatter.induct) auto

lemma length_argsort: "length (argsort a) = length a"
  by (simp add: argsort_def)

lemma cumEn_nonempty: "col \<noteq> [] \<Longrightarrow> cumsum (map g (rev (argsort col))) \<noteq> []"
proof -
  assume "col \<noteq> []"
  then have "length (cumsum (map g (rev (argsort col)))) \<noteq> 0"
    by (simp add: cumsum_def length_cumsum_from length_argsort)
  then show ?thesis by force
qed

lemma energy_map_ok:
  "col \<noteq> [] \<Longrightarrow> \<exists>Bvec. energy_map col = Inr Bvec \<and> length Bvec = length col"
  by (simp add: energy_map_def Let_def cumEn_nonempty length_scatter)

lemma energy_map_empty: "energy_map [] = Inl IndexError"
  by (simp add: energy_map_def argsort_def cumsum_def)

lemma component_grid_ok:
  assumes "length col = d1 * d2" "0 < d1 * d2"
  shows "\<exists>Bmat. component_grid col d1 d2 = Inr Bmat"
proof -
  from assms have "col \<noteq> []" by auto
  then obtain Bvec where "energy_map col = Inr Bvec" "length Bvec = length col"
    using energy_map_ok by blast
  then show ?thesis using assms by (simp add: component_grid_def reshape_F_def)
qed

lemma contour_loop_Inr:
  assumes "list_all (\<lambda>c. length c = d1 * d2) cols" "0 < d1 * d2"
  shows "\<exists>ps. contour_loop tr cols d1 d2 thr acc = Inr (acc @ ps) \<and> length ps = length cols \<and>
           (\<forall>i<length cols. \<exists>Bmat. component_grid (cols ! i) d1 d2 = Inr Bmat \<and>
                ps ! i = first_or_placeholder (tr Bmat thr))"
  using assms
proof (induction cols arbitrary: acc)
  case Nil
  then show ?case by simp
next
  case (Cons col cols)
  then obtain Bmat where B: "component_grid col d1 d2 = Inr Bmat"
    using component_grid_ok [of col d1 d2] by auto
  from Cons.prems have rest: "list_all (\<lambda>c. length c = d1 * d2) cols" by simp
  from Cons.IH [OF rest Cons.prems(2), of "acc @ [first_or_placeholder (tr Bmat thr)]"]
  obtain ps where ps:
    "contour_loop tr cols d1 d2 thr (acc @ [first_or_placeholder (tr Bmat thr)])
       = Inr ((acc @ [first_or_placeholder (tr Bmat thr)]) @ ps)"
    "length ps = length cols"
    "\<forall>i<length cols. \<exists>Bmat. component_grid (cols ! i) d1 d2 = Inr Bmat \<and>
                ps ! i = first_or_placeholder (tr Bmat thr)"
    by blast
  let ?qs = "first_or_placeholder (tr Bmat thr) # ps"
  have "contour_loop tr (col # cols) d1 d2 thr acc = Inr (acc @ ?qs)"
    using B ps(1) by simp
  moreover have "length ?qs = length (col # cols)" using ps(2) by simp
  moreover have "\<forall>i<length (col # cols). \<exists>Bmat. component_grid ((col # cols) ! i) d1 d2 = Inr Bmat \<and>
                ?qs ! i = first_or_placeholder (tr Bmat thr)"
    using B ps(3) by (auto simp: nth_Cons split: nat.splits)
  ultimately show ?case by blast
qed

lemma first_or_placeholder_length:
  "list_all (\<lambda>c. 3 \<le> length c) cs \<Longrightarrow> 3 \<le> length (first_or_placeholder cs)"
  by (cases cs) (simp_all add: first_or_placeholder_def placeholder_def)










subsection \<open>Mask shorter than the frame list\<close>

text \<open>
  C1. On the file-list path a mask of length \<open>k\<close> shorter than the list of
  \<open>N\<close> frame files is extended with True, that is with "exclude": the conversion is the
  one of the full-length mask with True appended for the indices \<open>k..N-1\<close>, and the files
  read are those the mask keeps among the first \<open>k\<close>; the tail frames are dropped.
\<close>

theorem short_mask_drops_tail_frames:
  assumes "length m < length (filenames hdata)"
    and "case rawfile hdata of None \<Rightarrow> True | Some r \<Rightarrow> r \<notin> dom (files w)"
  shows "tiffs_to_cnmf E hdata (Some m) force w =
           tiffs_to_cnmf E hdata
             (Some (m @ replicate (length (filenames hdata) - length m) True)) force w
         \<and> select_filenames (filenames hdata) (Some m) =
           select_filenames (filenames hdata)
             (Some (m @ replicate (length (filenames hdata) - length m) True))
         \<and> select_filenames (filenames hdata) (Some m) =
           select_filenames (take (length m) (filenames hdata)) (Some m)"
proof -
  have same: "select_filenames (filenames hdata) (Some m) =
      select_filenames (filenames hdata)
        (Some (m @ replicate (length (filenames hdata) - length m) True))"
    using assms(1) by (simp add: select_filenames_def mask_full_short mask_full_padded)
  have "tiffs_to_cnmf E hdata (Some m) force w =
           tiffs_to_cnmf E hdata
             (Some (m @ replicate (length (filenames hdata) - length m) True)) force w"
    using assms(2) same
    by (simp add: tiffs_to_cnmf_def io_bind_def path_exists_def raw_missing_def io_lift_def)
  with same select_drops_tail [OF assms(1)] show ?thesis by simp
qed

theorem short_mask_drops_tail_frames_witness:
  "length [False, True] < length (filenames (demo_data\<lparr>filenames := [''f0.tif'', ''f1.tif'', ''f2.tif'']\<rparr>))
   \<and> rawfile demo_data = None
   \<and> select_filenames [''f0.tif'', ''f1.tif'', ''f2.tif''] (Some [False, True]) = [''f0.tif'']
   \<and> select_filenames [''f0.tif'', ''f1.tif'', ''f2.tif''] (Some [False, True, True])
       = [''f0.tif'']"
  using short_mask_drops_tail_frames
    [where m = "[False, True]"
       and hdata = "demo_data\<lparr>filenames := [''f0.tif'', ''f1.tif'', ''f2.tif'']\<rparr>"]
  by (simp add: select_filenames_def mask_full_def demo_data_def)

theorem short_mask_keeps_tail_counterexample:
  "select_filenames [''f0.tif'', ''f1.tif''] (Some [False]) = [''f0.tif'']
   \<and> select_filenames [''f0.tif'', ''f1.tif''] (Some [False, False])
       = [''f0.tif'', ''f1.tif'']"
  by (simp add: select_filenames_def mask_full_def)

subsection \<open>The contour extractor\<close>

text \<open>
  C5. For a spatial weight matrix with \<open>m\<close> columns and at least one row,
  and dimensions with \<open>d1 * d2\<close> its row count, \<open>contour\<close> returns exactly \<open>m\<close>
  polygons, the \<open>i\<close>-th from the \<open>i\<close>-th column: the first contour the tracer finds on
  that column's grid, or the three-point placeholder. Each has at least three points
  whenever every contour the tracer returns has.
\<close>

theorem contour_one_polygon_per_component:
  assumes "wf_matrix A" and "nrows A = d1 * d2" and "0 < nrows A \<or> columns A = []"
  shows "\<exists>ps. contour tr A d1 d2 thr = Inr ps \<and> length ps = length (columns A) \<and>
           (\<forall>i<length (columns A). \<exists>Bmat.
               component_grid (columns A ! i) d1 d2 = Inr Bmat \<and>
               ps ! i = first_or_placeholder (tr Bmat thr)) \<and>
           ((\<forall>Bmat. list_all (\<lambda>c. 3 \<le> length c) (tr Bmat thr)) \<longrightarrow>
               list_all (\<lambda>p. 3 \<le> length p) ps)"
proof (cases "columns A = []")
  case True
  then show ?thesis by (simp add: contour_def)
next
  case False
  with assms have pos: "0 < d1 * d2" by simp
  have cols: "list_all (\<lambda>c. length c = d1 * d2) (columns A)"
    using assms(1,2) by (simp add: wf_matrix_def)
  obtain ps where ps: "contour_loop tr (columns A) d1 d2 thr [] = Inr ([] @ ps)"
    "length ps = length (columns A)"
    "\<forall>i<length (columns A). \<exists>Bmat. component_grid (columns A ! i) d1 d2 = Inr Bmat \<and>
        ps ! i = first_or_placeholder (tr Bmat thr)"
    using contour_loop_Inr [OF cols pos] by blast
  have "list_all (\<lambda>p. 3 \<le> length p) ps"
    if all: "\<forall>Bmat. list_all (\<lambda>c. 3 \<le> length c) (tr Bmat thr)"
  proof -
    have "3 \<le> length (ps ! i)" if "i < length ps" for i
    proof -
      from that ps(2,3) obtain Bmat where "ps ! i = first_or_placeholder (tr Bmat thr)"
        by auto
      then show ?thesis using all first_or_placeholder_length by simp
    qed
    then show ?thesis by (simp add: list_all_length)
  qed
  with ps show ?thesis by (auto simp: contour_def)
qed

theorem contour_one_polygon_per_component_witness:
  "wf_matrix (Matrix 4 [[3, 1, 0, 0], [1, 1, 2, 2]])
   \<and> nrows (Matrix 4 [[3, 1, 0, 0], [1, 1, 2, 2]]) = 2 * 2
   \<and> contour square_outline (Matrix 4 [[3, 1, 0, 0], [1, 1, 2, 2]]) 2 2 (9/10)
     = Inr [[[0, 0], [1, 0], [1, 1], [0, 1]], [[0, 0], [1, 0], [1, 1], [0, 1]]]"
  using contour_one_polygon_per_component
    [of "Matrix 4 [[3, 1, 0, 0], [1, 1, 2, 2]]" 2 2 square_outline "9/10"]
  by (simp add: contour_def component_grid_def energy_map_def argsort_def cumsum_def
        reshape_F_def square_outline_def first_or_placeholder_def wf_matrix_def)

theorem contour_count_counterexample:
  "contour no_contours (Matrix 0 [[]]) 0 0 (9/10) = Inl IndexError
   \<and> contour corner_line (Matrix 4 [[3, 1, 0, 0]]) 2 2 (19/20)
       = Inr [[[1/2, 0], [0, 1/2]]]"
  by (simp add: contour_def component_grid_def energy_map_def argsort_def cumsum_def
        reshape_F_def corner_line_def first_or_placeholder_def)



subsection \<open>Helper facts about runs\<close>

lemma upt_0_2: "[0..<2] = [0, Suc 0]"
  by (simp add: upt_rec numeral_2_eq_2)

lemmas run_defs =
  upt_0_2 process_data_def process_data_patches_def whole_frame_stages_def patch_stages_def
  tiffs_to_cnmf_def load_bundle_def projection_def
  io_bind_def io_call_def call_set_parms_def call_merge_def call_order_def
  io_lift_def io_return_def path_exists_def raw_missing_def
  np_save_def np_load_def savemat_def loadmat_def getitem_def shape3_def npy_path_def
  py_floordiv_def patch_K_def pix_proc_def int_half_def bindE_def get_group_def get_param_def
  NCPUS_def select_filenames_def mask_full_def read_raw_masked_def np_invert_def bool_index_def
  stand_in_def demo_data_def demo_raw_data_def empty_disk_def raw_disk_def only_Y_disk_def
  replay_disk_def demo_options_def demo_A_def demo_C_def none_matrix_def demo_frame_def
  contour_def component_grid_def energy_map_def argsort_def cumsum_def reshape_F_def
  np_divide_def corner_square_def first_or_placeholder_def placeholder_def new_calls_def
  whole_frame_order_def

text \<open>
  Read with true division (Python 3), \<open>int(nrois_init/NCPUS/2.0)\<close> is the same number
  for a target that is not negative.
\<close>

lemma patch_K_true_division:
  assumes "0 \<le> n" and "0 < c"
  shows "patch_K n c = Inr \<lfloor>real_of_int n / real c / 2\<rfloor>"
proof -
  have "\<lfloor>real_of_int n / real c / 2\<rfloor> = \<lfloor>real_of_int n / real_of_int (int c * 2)\<rfloor>"
    by simp
  also have "\<dots> = n div (int c * 2)"
    by (rule floor_divide_of_int_eq)
  also have "\<dots> = n div int c div 2"
    by (rule zdiv_zmult2_eq) simp
  finally have "\<lfloor>real_of_int n / real c / 2\<rfloor> = n div int c div 2" .
  moreover have "0 \<le> n div int c"
    using assms by (simp add: pos_imp_zdiv_nonneg_iff)
  ultimately show ?thesis
    using assms by (simp add: patch_K_def py_floordiv_def bindE_def int_half_def)
qed

lemma io_bindE:
  assumes "io_bind m f w = (r, w')"
  obtains (fail) e where "m w = (Inl e, w')" "r = Inl e"
        | (ok) x w1 where "m w = (Inr x, w1)" "f x w1 = (r, w')"
  using assms by (auto simp: io_bind_def split: prod.splits sum.splits)

lemma io_lift_eq: "io_lift r0 w = (r, w') \<longleftrightarrow> r0 = r \<and> w' = w"
  by (auto simp: io_lift_def)

lemma io_return_eq: "io_return x w = (r, w') \<longleftrightarrow> r = Inr x \<and> w' = w"
  by (auto simp: io_return_def)

lemma io_call_eq:
  "io_call c r0 w = (r, w') \<longleftrightarrow> r0 = r \<and> w' = w\<lparr>calls := calls w @ [c]\<rparr>"
  by (auto simp: io_call_def)

lemma call_set_parms_eq:
  "call_set_parms E Y n K p ssub tsub w = (r, w') \<longleftrightarrow>
     CNMFSetParms E Y n K p ssub tsub = r \<and> w' = w\<lparr>calls := calls w @ [SetParms n K p ssub tsub]\<rparr>"
  by (simp add: call_set_parms_def io_call_eq)

lemma call_merge_eq:
  "call_merge E a w = (r, w') \<longleftrightarrow>
     merge_components E a = r
     \<and> w' = w\<lparr>calls := calls w @ [MergeComponents (m_thr a) (m_mx a) (m_fast_merge a)]\<rparr>"
  by (simp add: call_merge_def io_call_eq)

lemma call_order_eq:
  "call_order E A C w = (r, w') \<longleftrightarrow>
     order_components E A C = r \<and> w' = w\<lparr>calls := calls w @ [OrderComponents A C]\<rparr>"
  by (simp add: call_order_def io_call_eq)

lemma path_exists_eq: "path_exists p w = (r, w') \<longleftrightarrow> r = Inr (p \<in> dom (files w)) \<and> w' = w"
  by (auto simp: path_exists_def)

lemma np_load_eq:
  "np_load p w = (r, w') \<longleftrightarrow>
     w' = w \<and> (case files w p of Some (Npy a) \<Rightarrow> Inr a | _ \<Rightarrow> Inl IOError) = r"
  by (auto simp: np_load_def split: option.splits disk_file.splits)

lemma savemat_eq:
  "savemat p d w = (r, w') \<longleftrightarrow>
     r = Inr () \<and> w' = w\<lparr>files := (files w)(p \<mapsto> MatFile d), calls := calls w @ [SaveMat p]\<rparr>"
  by (auto simp: savemat_def)

lemma whole_frame_stages_calls:
  assumes "whole_frame_stages E hdata Y p nrois_init w = (r, w')"
  shows "\<exists>L. calls w' = calls w @ L
           \<and> prefix (filter numeric_stage L) whole_frame_order
           \<and> (\<forall>b. r = Inr b \<longrightarrow> filter numeric_stage L = whole_frame_order)"
  using assms unfolding whole_frame_stages_def whole_frame_order_def
  by (auto elim!: io_bindE
      simp: io_lift_eq io_return_eq io_call_eq call_set_parms_eq call_merge_eq np_load_eq
        savemat_eq
      simp del: set_params.simps)


lemma npy_path_Y: "npy_path (d @ ''_Y'') = d @ ''_Y.npy''"
  by (simp add: npy_path_def)

lemma npy_path_Yr: "npy_path (d @ ''_Yr'') = d @ ''_Yr.npy''"
  by (simp add: npy_path_def)

lemma tiffs_to_cnmf_unfold:
  "tiffs_to_cnmf E hdata msk force w =
     (if dirname_comp hdata @ ''_Y.npy'' \<in> dom (files w) \<and> \<not> force then (Inr (), w)
      else case (if (case rawfile hdata of None \<Rightarrow> True | Some r \<Rightarrow> r \<notin> dom (files w))
                 then tiff_asarray E (select_filenames (filenames hdata) msk)
                 else read_raw_masked hdata msk) of
             Inl e \<Rightarrow> (Inl e, w)
           | Inr tiff_data \<Rightarrow>
               (Inr (),
                w\<lparr>files := (files w)
                     (dirname_comp hdata @ ''_Y.npy'' \<mapsto> Npy (Arr3 tiff_data),
                      dirname_comp hdata @ ''_Yr.npy'' \<mapsto> Npy (Arr2 (reshape_cube_F tiff_data))),
                  calls := calls w @ [NpSave (dirname_comp hdata @ ''_Y.npy''),
                                      NpSave (dirname_comp hdata @ ''_Yr.npy'')]\<rparr>))"
  by (simp add: tiffs_to_cnmf_def io_bind_def path_exists_def raw_missing_def io_lift_def
        io_return_def np_save_def npy_path_Y npy_path_Yr split: sum.splits)

lemma tiffs_to_cnmf_effect:
  assumes "tiffs_to_cnmf E hdata msk force w = (r, w')"
  shows "files w' (dirname_comp hdata @ ''_cnmf.mat'') = files w (dirname_comp hdata @ ''_cnmf.mat'')
       \<and> (\<exists>L. calls w' = calls w @ L \<and> quiet L)"
  using assms
  by (auto simp: tiffs_to_cnmf_unfold quiet_def split: if_splits sum.splits)

lemma load_bundle_eq:
  "load_bundle fn w = (r, w') \<Longrightarrow>
     w' = w \<and> (\<forall>A2 C2 YrA S2 bl2. r = Inr (A2, C2, YrA, S2, bl2) \<longrightarrow>
        (\<exists>d. files w fn = Some (MatFile d) \<and> map_of d ''A'' = Some A2 \<and> map_of d ''C'' = Some C2
            \<and> map_of d ''YrA'' = Some YrA \<and> map_of d ''S'' = Some S2
            \<and> map_of d ''bl'' = Some bl2))"
  unfolding load_bundle_def
  by (auto elim!: io_bindE simp: io_lift_eq io_return_eq loadmat_def getitem_def
        split: option.splits disk_file.splits)

lemma projection_effect:
  assumes "projection E hdata Y w = (r, w')"
  shows "\<exists>L. calls w' = calls w @ L \<and> quiet L"
  using assms unfolding projection_def
  by (auto elim!: io_bindE simp: io_return_eq path_exists_eq np_load_eq np_save_def quiet_def
        split: if_splits)


lemma patch_stages_calls:
  assumes "patch_stages E hdata Y p nrois_init w = (r, w')"
  shows "\<exists>L. calls w' = calls w @ L
           \<and> (filter is_merge L = [] \<or> (\<exists>thr. filter is_merge L = [MergeComponents thr \<infinity> None]))
           \<and> (filter is_set_parms L = [] \<or>
                (\<exists>K. patch_K nrois_init (NCPUS E) = Inr K
                   \<and> prefix [SetParms (NCPUS E) K p 1 1] (filter is_set_parms L)))
           \<and> (\<forall>b. r = Inr b \<longrightarrow>
                 (\<exists>thr. filter is_merge L = [MergeComponents thr \<infinity> None])
               \<and> (\<exists>K. patch_K nrois_init (NCPUS E) = Inr K
                   \<and> prefix [SetParms (NCPUS E) K p 1 1] (filter is_set_parms L)))"
  using assms unfolding patch_stages_def
  by (auto elim!: io_bindE
      simp: io_lift_eq io_return_eq io_call_eq call_set_parms_eq call_merge_eq np_load_eq
        savemat_eq
      simp del: set_params.simps)



lemma patches_run:
  assumes "process_data_patches E hdata msk p nrois_init w = (r, w')"
  shows "calls w' = calls w @ new_calls w w'
       \<and> (filter is_merge (new_calls w w') = []
            \<or> (\<exists>thr. filter is_merge (new_calls w w') = [MergeComponents thr \<infinity> None]))
       \<and> (filter is_set_parms (new_calls w w') = [] \<or>
                (\<exists>K. patch_K nrois_init (NCPUS E) = Inr K
                   \<and> prefix [SetParms (NCPUS E) K p 1 1] (filter is_set_parms (new_calls w w'))))
       \<and> (dirname_comp hdata @ ''_cnmf.mat'' \<notin> dom (files w) \<and> (\<exists>out. r = Inr out) \<longrightarrow>
             (\<exists>thr. filter is_merge (new_calls w w') = [MergeComponents thr \<infinity> None])
               \<and> (\<exists>K. patch_K nrois_init (NCPUS E) = Inr K
                   \<and> prefix [SetParms (NCPUS E) K p 1 1] (filter is_set_parms (new_calls w w'))))"
  using assms unfolding process_data_patches_def
  by (auto elim!: io_bindE
      simp: io_lift_eq io_return_eq io_call_eq call_order_eq path_exists_eq np_load_eq
        new_calls_def quiet_def domIff
      dest!: tiffs_to_cnmf_effect load_bundle_eq patch_stages_calls projection_effect
      split: if_splits)

lemma process_data_returns_unordered:
  assumes "process_data E hdata msk p nrois_init w = (Inr (rois, C, zproj, S, Y, YrA), w')"
  shows "\<exists>A2 A_or C_or srt before.
             calls w' = before @ [OrderComponents A2 C, StopServer]
           \<and> order_components E A2 C = Inr (A_or, C_or, srt)
           \<and> contour (trace_contours E) A2 (cube_d1 Y) (cube_d2 Y) (9/10) = Inr rois"
  using assms unfolding process_data_def
  by (auto elim!: io_bindE
      simp: io_lift_eq io_return_eq io_call_eq call_order_eq path_exists_eq np_load_eq
      dest!: projection_effect)

subsection \<open>The array cache\<close>






subsection \<open>The orchestrators\<close>



text \<open>
  C7. On the whole-frame path with no bundle on disk, the numeric stages called are, in
  this order, preprocessing, initialisation, spatial update, temporal update, merging,
  spatial update, temporal update: a run that returns normally has called exactly these,
  and a run that raises has called an initial part of the sequence, so no stage starts
  before the one before it returned.
\<close>

theorem whole_frame_stage_order:
  assumes "dirname_comp hdata @ ''_cnmf.mat'' \<notin> dom (files w)"
    and "process_data E hdata msk p nrois_init w = (r, w')"
  shows "calls w' = calls w @ new_calls w w'
       \<and> prefix (filter numeric_stage (new_calls w w')) whole_frame_order
       \<and> (\<forall>out. r = Inr out \<longrightarrow> filter numeric_stage (new_calls w w') = whole_frame_order)"
  using assms unfolding process_data_def
  by (auto elim!: io_bindE
      simp: io_lift_eq io_return_eq io_call_eq call_order_eq path_exists_eq np_load_eq
        new_calls_def quiet_def domIff
      dest!: tiffs_to_cnmf_effect whole_frame_stages_calls projection_effect)

theorem whole_frame_stage_order_witness:
  "''d_cnmf.mat'' \<notin> dom (files empty_disk)
   \<and> fst (process_data (stand_in 4) demo_data None 2 400 empty_disk)
     = Inr ([[[0, 0], [1, 0], [1, 1], [0, 1]], placeholder],
            demo_C, Arr2 (Matrix 2 [[0, 0], [0, 0]]), none_matrix,
            Cube 2 2 [demo_frame, demo_frame], none_matrix)
   \<and> filter numeric_stage
        (new_calls empty_disk (snd (process_data (stand_in 4) demo_data None 2 400 empty_disk)))
     = [PreprocessData, InitializeComponents, UpdateSpatialComponents,
        UpdateTemporalComponents, MergeComponents (PReal (7/10)) 100 (Some True),
        UpdateSpatialComponents, UpdateTemporalComponents]"
  using whole_frame_stage_order
    [where hdata = demo_data and w = empty_disk and E = "stand_in 4" and msk = None
       and p = 2 and nrois_init = 400
       and r = "fst (process_data (stand_in 4) demo_data None 2 400 empty_disk)"
       and w' = "snd (process_data (stand_in 4) demo_data None 2 400 empty_disk)"]
  by (simp add: run_defs)

text \<open>
  C2. \<open>process_data\<close> calls the ordering step and drops what it returns: the traces
  returned and the matrix outlined are the ones passed to \<open>order_components\<close>. Run on a
  stored bundle of two components with a library whose ordering reverses them: the
  ordering step is called and returns the reversed matrices, and the function returns
  the stored traces and the polygons of the stored matrix, in stored order.
\<close>

theorem process_data_returns_unordered_components:
  "fst (process_data (stand_in 4) demo_data None 2 400 replay_disk)
     = Inr ([[[0, 0], [1, 0], [1, 1], [0, 1]], placeholder],
            demo_C, Arr2 (Matrix 2 [[0, 0], [0, 0]]), none_matrix,
            Cube 2 2 [demo_frame, demo_frame], none_matrix)
   \<and> calls (snd (process_data (stand_in 4) demo_data None 2 400 replay_disk))
       = [NpSave ''d_proj.npy'', OrderComponents demo_A demo_C, StopServer]
   \<and> order_components (stand_in 4) demo_A demo_C
       = Inr (Matrix 4 [[0, 0, 1, 2], [3, 1, 0, 0]], Matrix 2 [[5, 1], [6, 2]], [1, 0])
   \<and> contour (trace_contours (stand_in 4)) (Matrix 4 [[0, 0, 1, 2], [3, 1, 0, 0]]) 2 2 (9/10)
       = Inr [placeholder, [[0, 0], [1, 0], [1, 1], [0, 1]]]
   \<and> demo_C \<noteq> Matrix 2 [[5, 1], [6, 2]]"
  by (simp add: run_defs)

text \<open>
  C8. In \<open>process_data_patches\<close> every merge is called with \<open>mx=np.Inf\<close>, and a run
  without a stored bundle that returns normally has called the merge exactly once, after
  the patch run.
\<close>

theorem patches_merge_cap_unbounded:
  assumes "process_data_patches E hdata msk p nrois_init w = (r, w')"
  shows "calls w' = calls w @ new_calls w w'
       \<and> (\<forall>thr mx fast. MergeComponents thr mx fast \<in> set (new_calls w w') \<longrightarrow> mx = \<infinity>)
       \<and> (dirname_comp hdata @ ''_cnmf.mat'' \<notin> dom (files w) \<and> (\<exists>out. r = Inr out) \<longrightarrow>
            (\<exists>thr. filter is_merge (new_calls w w') = [MergeComponents thr \<infinity> None]))"
proof -
  note run = patches_run [OF assms]
  from run have one: "filter is_merge (new_calls w w') = []
      \<or> (\<exists>thr. filter is_merge (new_calls w w') = [MergeComponents thr \<infinity> None])"
    by blast
  have "mx = \<infinity>" if "MergeComponents thr mx fast \<in> set (new_calls w w')" for thr mx fast
  proof -
    from that have mem: "MergeComponents thr mx fast \<in> set (filter is_merge (new_calls w w'))"
      by simp
    from one show ?thesis
    proof
      assume "filter is_merge (new_calls w w') = []"
      with mem show ?thesis by simp
    next
      assume "\<exists>thr. filter is_merge (new_calls w w') = [MergeComponents thr \<infinity> None]"
      then obtain thr' where "filter is_merge (new_calls w w') = [MergeComponents thr' \<infinity> None]"
        by blast
      with mem show ?thesis by simp
    qed
  qed
  moreover from run
  have "dirname_comp hdata @ ''_cnmf.mat'' \<notin> dom (files w) \<and> (\<exists>out. r = Inr out) \<longrightarrow>
            (\<exists>thr. filter is_merge (new_calls w w') = [MergeComponents thr \<infinity> None])"
    by blast
  moreover from run have "calls w' = calls w @ new_calls w w'"
    by blast
  ultimately show ?thesis by blast
qed

theorem patches_merge_cap_unbounded_witness:
  "''d_cnmf.mat'' \<notin> dom (files empty_disk)
   \<and> fst (process_data_patches (stand_in 4) demo_data None 2 400 empty_disk)
     = Inr ([[[0, 0], [1, 0], [1, 1], [0, 1]], placeholder],
            demo_C, Arr2 (Matrix 2 [[0, 0], [0, 0]]), none_matrix,
            Cube 2 2 [demo_frame, demo_frame], none_matrix)
   \<and> filter is_merge
        (new_calls empty_disk
           (snd (process_data_patches (stand_in 4) demo_data None 2 400 empty_disk)))
     = [MergeComponents (PReal (8/10)) \<infinity> None]"
  using patches_merge_cap_unbounded
    [where E = "stand_in 4" and hdata = demo_data and msk = None and p = 2
       and nrois_init = 400 and w = empty_disk
       and r = "fst (process_data_patches (stand_in 4) demo_data None 2 400 empty_disk)"
       and w' = "snd (process_data_patches (stand_in 4) demo_data None 2 400 empty_disk)"]
  by (simp add: run_defs)

text \<open>
  C10. In a run of \<open>process_data_patches\<close> without a stored bundle, the first
  configuration asked of the library has \<open>K = int(nrois_init/NCPUS/2.0)\<close> with
  \<open>NCPUS = int(cpu_count/2)\<close>, so it depends on the machine: with twice the workers the
  target is a different one as soon as \<open>nrois_init\<close> reaches twice the smaller worker count.
\<close>

theorem patch_target_varies_with_cpus:
  assumes "dirname_comp hdata @ ''_cnmf.mat'' \<notin> dom (files w)"
    and "process_data_patches E hdata msk p nrois_init w = (Inr out, w')"
  shows "calls w' = calls w @ new_calls w w'
       \<and> (\<exists>K. patch_K nrois_init (cpu_count E div 2) = Inr K
            \<and> K = int_half (nrois_init div int (cpu_count E div 2))
            \<and> prefix [SetParms (cpu_count E div 2) K p 1 1]
                 (filter is_set_parms (new_calls w w')))
       \<and> (\<forall>c. 0 < c \<and> 2 * int c \<le> nrois_init
              \<longrightarrow> patch_K nrois_init (2 * c) \<noteq> patch_K nrois_init c)"
proof -
  from patches_run [OF assms(2)] assms(1)
  obtain K where K: "patch_K nrois_init (NCPUS E) = Inr K"
    "prefix [SetParms (NCPUS E) K p 1 1] (filter is_set_parms (new_calls w w'))"
    by blast
  from K(1) have "K = int_half (nrois_init div int (cpu_count E div 2))"
    by (auto simp: patch_K_def py_floordiv_def bindE_def NCPUS_def split: if_splits)
  with K have first: "\<exists>K. patch_K nrois_init (cpu_count E div 2) = Inr K
            \<and> K = int_half (nrois_init div int (cpu_count E div 2))
            \<and> prefix [SetParms (cpu_count E div 2) K p 1 1]
                 (filter is_set_parms (new_calls w w'))"
    by (simp add: NCPUS_def)
  have "patch_K nrois_init (2 * c) \<noteq> patch_K nrois_init c"
    if c: "0 < c" "2 * int c \<le> nrois_init" for c
  proof -
    let ?q = "nrois_init div int c"
    have "(2 * int c) div int c \<le> ?q"
      using c by (intro zdiv_mono1) auto
    moreover have "(2 * int c) div int c = 2"
      using c by simp
    ultimately have "2 \<le> ?q" by simp
    moreover have "nrois_init div int (2 * c) = ?q div 2"
      using zdiv_zmult2_eq [of 2 nrois_init "int c"] by (simp add: mult.commute)
    ultimately show ?thesis
      using c by (simp add: patch_K_def py_floordiv_def bindE_def int_half_def)
  qed
  moreover from patches_run [OF assms(2)] have "calls w' = calls w @ new_calls w w'"
    by blast
  ultimately show ?thesis using first by blast
qed

theorem patch_target_varies_with_cpus_witness:
  "''d_cnmf.mat'' \<notin> dom (files empty_disk)
   \<and> fst (process_data_patches (stand_in 4) demo_data None 2 400 empty_disk)
       = Inr ([[[0, 0], [1, 0], [1, 1], [0, 1]], placeholder],
              demo_C, Arr2 (Matrix 2 [[0, 0], [0, 0]]), none_matrix,
              Cube 2 2 [demo_frame, demo_frame], none_matrix)
   \<and> filter is_set_parms
     (new_calls empty_disk
        (snd (process_data_patches (stand_in 4) demo_data None 2 400 empty_disk)))
     = [SetParms 2 100 2 1 1, SetParms 2 2 2 1 1]
   \<and> filter is_set_parms
        (new_calls empty_disk
           (snd (process_data_patches (stand_in 8) demo_data None 2 400 empty_disk)))
     = [SetParms 4 50 2 1 1, SetParms 4 2 2 1 1]
   \<and> patch_K 400 4 \<noteq> patch_K 400 2"
  using patch_target_varies_with_cpus
    [where E = "stand_in 4" and hdata = demo_data and msk = None and p = 2
       and nrois_init = 400 and w = empty_disk
       and out = "projr (fst (process_data_patches (stand_in 4) demo_data None 2 400 empty_disk))"
       and w' = "snd (process_data_patches (stand_in 4) demo_data None 2 400 empty_disk)"]
  by (simp add: run_defs)

end
